theory Spec2Isabelle
  imports Complex_Main
begin

section \<open>The game-room server of index.js\<close>

text \<open>
  The server keeps one global object \<^verbatim>\<open>gameRooms\<close> and registers one handler per
  socket event. Each handler is embedded as a function from the registry (and the
  arguments of the event, the id of the calling socket among them) to the new registry
  and the list of things the handler sends: the value given to the acknowledgement
  callback and the events broadcast to a room, in the order of the source.

  Conventions of the embedding.
  \<^item> A JavaScript object used as a dictionary is a map when the code only reads, writes
    and deletes single keys (\<^verbatim>\<open>gameRooms\<close>, \<^verbatim>\<open>scores\<close>), and a list of
    key/value pairs in insertion order when the code counts or enumerates its keys
    (\<^verbatim>\<open>votes\<close>, \<^verbatim>\<open>voteCounts\<close>).
  \<^item> Room codes and vote targets are whatever string a client sends. A look-up in a
    plain object also finds the members that every object inherits from
    \<^verbatim>\<open>Object.prototype\<close>; the embedding follows the source there. Socket ids are made
    by the server and are never such a name.
  \<^item> The entries \<^verbatim>\<open>{id, name}\<close>, \<^verbatim>\<open>{id, prompt}\<close> and \<^verbatim>\<open>{id, caption}\<close> are pairs
    whose first component is the id.
  \<^item> A score is a JavaScript number that is only ever set to 0 and increased by 1, so
    it is an integer or \<^verbatim>\<open>NaN\<close> (what \<^verbatim>\<open>undefined + 1\<close> gives); integers are far
    from the range where doubles stop being exact.
  \<^item> \<^verbatim>\<open>Math.random()\<close> is an input of the handler that calls it.
  \<^item> \<^verbatim>\<open>socket.join\<close> and \<^verbatim>\<open>console.log\<close> do not touch \<^verbatim>\<open>gameRooms\<close>
    and are left out.
  \<^item> An exception that a handler throws is not caught anywhere in the source. It is
    recorded as an output, with the registry as it was when it was thrown.
\<close>

subsection \<open>Data\<close>

type_synonym player = "string \<times> string"

type_synonym 'v obj = "(string \<times> 'v) list"

datatype phase = Waiting | PromptSubmission | CaptionSubmission | Voting | Result

datatype score = Number int | NaN

record gameState =
  phase :: phase
  round_no :: int
  prompts :: "(string \<times> string) list"
  imageUrl :: string
  captions :: "(string \<times> string) list"
  votes :: "string obj"

record room =
  host :: string
  players :: "player list"
  gameState :: gameState
  scores :: "string \<rightharpoonup> score"

type_synonym gameRooms = "string \<rightharpoonup> room"

datatype event =
    UpdatePlayers "player list"
  | PhaseChange phase
  | ImageGenerated string
  | CaptionsReady "(string \<times> string) list"
  | RoundResult "string list" "string \<rightharpoonup> score"

datatype out =
    CallbackRoomCode string
  | CallbackJoin bool "string option"
  | CallbackState gameState "player list"
  | CallbackUndefined
  | Emit string event
  | ConsoleError string
  | SetTimeout string nat
  | Uncaught string

subsection \<open>Plain objects\<close>

text \<open>The names that every plain object inherits from \<^verbatim>\<open>Object.prototype\<close> in Node.js.\<close>

definition objectPrototypeNames :: "string list" where
  "objectPrototypeNames =
     [''constructor'', ''__defineGetter__'', ''__defineSetter__'', ''hasOwnProperty'',
      ''__lookupGetter__'', ''__lookupSetter__'', ''isPrototypeOf'', ''propertyIsEnumerable'',
      ''toString'', ''valueOf'', ''__proto__'', ''toLocaleString'']"

text \<open>What \<^verbatim>\<open>gameRooms[roomCode]\<close> finds: a room stored under the code, an inherited
  member (a function, or the prototype itself: truthy, without \<^verbatim>\<open>host\<close>,
  \<^verbatim>\<open>players\<close> or \<^verbatim>\<open>gameState\<close>), or \<^verbatim>\<open>undefined\<close>.\<close>

datatype found = Own room | Inherited | Undefined

definition lookupRoom :: "gameRooms \<Rightarrow> string \<Rightarrow> found" where
  "lookupRoom rooms roomCode =
     (case rooms roomCode of
        Some room \<Rightarrow> Own room
      | None \<Rightarrow> if roomCode \<in> set objectPrototypeNames then Inherited else Undefined)"

text \<open>An object whose keys the code enumerates is the list of its own properties in the
  order of their creation. \<open>obj_get\<close> reads an own property and \<open>obj_set\<close> is
  \<^verbatim>\<open>o[k] = v\<close>: a key already present keeps its place, a new one goes last.\<close>

definition obj_get :: "'v obj \<Rightarrow> string \<Rightarrow> 'v option" where
  "obj_get kvs k = map_of kvs k"

fun obj_set :: "string \<Rightarrow> 'v \<Rightarrow> 'v obj \<Rightarrow> 'v obj" where
  "obj_set k v [] = [(k, v)]"
| "obj_set k v ((k', v') # kvs) =
     (if k' = k then (k, v) # kvs else (k', v') # obj_set k v kvs)"

text \<open>\<^verbatim>\<open>Object.keys\<close> and \<^verbatim>\<open>Object.values\<close> list the keys that are array indices
  (canonical decimal numerals below \<open>2\<^sup>3\<^sup>2 - 1\<close>) first, in ascending order, and the other
  keys after them in the order of creation.\<close>

definition digitValue :: "char \<Rightarrow> nat option" where
  "digitValue c = map_of (zip ''0123456789'' [0, 1, 2, 3, 4, 5, 6, 7, 8, 9]) c"

fun decimal :: "string \<Rightarrow> nat \<Rightarrow> nat option" where
  "decimal [] n = Some n"
| "decimal (c # cs) n =
     (case digitValue c of None \<Rightarrow> None | Some d \<Rightarrow> decimal cs (10 * n + d))"

definition arrayIndex :: "string \<Rightarrow> nat option" where
  "arrayIndex s =
     (if s = [] \<or> (hd s = CHR ''0'' \<and> tl s \<noteq> []) then None
      else case decimal s 0 of
             None \<Rightarrow> None
           | Some n \<Rightarrow> if n < 4294967295 then Some n else None)"

definition ownProperties :: "'v obj \<Rightarrow> 'v obj" where
  "ownProperties kvs =
     sort_key (\<lambda>kv. case arrayIndex (fst kv) of None \<Rightarrow> 0 | Some n \<Rightarrow> n)
       (filter (\<lambda>kv. arrayIndex (fst kv) \<noteq> None) kvs) @
     filter (\<lambda>kv. arrayIndex (fst kv) = None) kvs"

definition obj_keys :: "'v obj \<Rightarrow> string list" where
  "obj_keys kvs = map fst (ownProperties kvs)"

definition obj_values :: "'v obj \<Rightarrow> 'v list" where
  "obj_values kvs = map snd (ownProperties kvs)"

subsection \<open>Helper functions\<close>

text \<open>\<^verbatim>\<open>s.substring(a, b)\<close> for \<open>a \<le> b\<close> and \<^verbatim>\<open>s.toUpperCase()\<close> on ASCII.\<close>

definition substring :: "nat \<Rightarrow> nat \<Rightarrow> string \<Rightarrow> string" where
  "substring a b s = take (b - a) (drop a s)"

definition toUpperCase :: "string \<Rightarrow> string" where
  "toUpperCase s =
     map (\<lambda>c. case map_of (zip ''abcdefghijklmnopqrstuvwxyz'' ''ABCDEFGHIJKLMNOPQRSTUVWXYZ'') c of
                 None \<Rightarrow> c | Some u \<Rightarrow> u) s"

text \<open>\<^verbatim>\<open>generateRoomCode\<close>: the argument is the string
  \<^verbatim>\<open>Math.random().toString(36)\<close>, such as \<^verbatim>\<open>0.4fzyo82mvyr\<close>.\<close>

definition generateRoomCode :: "string \<Rightarrow> string" where
  "generateRoomCode random36 = toUpperCase (substring 2 7 random36)"

text \<open>\<^verbatim>\<open>generateAIImage\<close> is a placeholder that always resolves to the same URL; the
  result type keeps the rejected promise that the caller's \<^verbatim>\<open>try/catch\<close> expects.\<close>

definition generateAIImage :: "string \<Rightarrow> string + string" where
  "generateAIImage prompt = Inr ''https://example.com/generated-image.png''"

text \<open>\<^verbatim>\<open>x += 1\<close> on a score that may be missing: \<^verbatim>\<open>undefined + 1\<close> is \<^verbatim>\<open>NaN\<close>.\<close>

fun plus_one :: "score option \<Rightarrow> score" where
  "plus_one None = NaN"
| "plus_one (Some NaN) = NaN"
| "plus_one (Some (Number n)) = Number (n + 1)"

subsection \<open>The vote tally of submitVote\<close>

text \<open>\<^verbatim>\<open>for (let vote of Object.values(votes)) voteCounts[vote] = (voteCounts[vote] || 0) + 1\<close>
  on \<^verbatim>\<open>voteCounts = {}\<close>. An entry is a number or, for a target named like an inherited
  member, the text that adding 1 to that member (a function) gives, and that adding 1 to
  such a text gives again. For the target \<^verbatim>\<open>__proto__\<close> the assignment of a text is
  ignored, so no entry is made.\<close>

datatype count = Count nat | Text

definition countVote :: "string \<Rightarrow> count obj \<Rightarrow> count obj" where
  "countVote vote voteCounts =
     (case obj_get voteCounts vote of
        Some (Count n) \<Rightarrow> obj_set vote (Count (n + 1)) voteCounts
      | Some Text \<Rightarrow> obj_set vote Text voteCounts
      | None \<Rightarrow>
          if vote = ''__proto__'' then voteCounts
          else if vote \<in> set objectPrototypeNames then obj_set vote Text voteCounts
          else obj_set vote (Count 1) voteCounts)"

definition voteCounts :: "string obj \<Rightarrow> count obj" where
  "voteCounts vs = fold countVote (obj_values vs) []"

text \<open>\<^verbatim>\<open>Math.max(...xs)\<close>: minus infinity for no argument, \<^verbatim>\<open>NaN\<close> as soon as one
  argument is not a number (a text here), the greatest argument otherwise.\<close>

datatype maximum = Maximum nat | NotANumber | MinusInfinity

fun maxStep :: "count \<Rightarrow> maximum \<Rightarrow> maximum" where
  "maxStep Text m = NotANumber"
| "maxStep (Count n) NotANumber = NotANumber"
| "maxStep (Count n) MinusInfinity = Maximum n"
| "maxStep (Count n) (Maximum m) = Maximum (max n m)"

definition math_max :: "count list \<Rightarrow> maximum" where
  "math_max xs = fold maxStep xs MinusInfinity"

text \<open>\<^verbatim>\<open>Object.keys(voteCounts).filter((key) => voteCounts[key] === maxVotes)\<close>: a text
  is never equal to the maximum, and nothing is equal to \<^verbatim>\<open>NaN\<close>.\<close>

definition winners :: "count obj \<Rightarrow> string list" where
  "winners vc =
     (let maxVotes = math_max (obj_values vc)
      in filter (\<lambda>key. case obj_get vc key of
                          Some (Count n) \<Rightarrow> maxVotes = Maximum n
                        | _ \<Rightarrow> False)
           (obj_keys vc))"

text \<open>\<^verbatim>\<open>winners.forEach((winnerId) => { room.scores[winnerId] += 1; })\<close>. A winner has a
  number as its count, so it is not named like an inherited member.\<close>

definition updateScores :: "string list \<Rightarrow> (string \<rightharpoonup> score) \<Rightarrow> (string \<rightharpoonup> score)" where
  "updateScores ws sc = fold (\<lambda>winnerId s. s(winnerId \<mapsto> plus_one (s winnerId))) ws sc"

subsection \<open>The handlers\<close>

definition newRoom :: "string \<Rightarrow> room" where
  "newRoom sid =
     \<lparr>host = sid, players = [],
      gameState = \<lparr>phase = Waiting, round_no = 1, prompts = [], imageUrl = [],
                   captions = [], votes = []\<rparr>,
      scores = Map.empty\<rparr>"

definition createGame :: "gameRooms \<Rightarrow> string \<Rightarrow> string \<Rightarrow> gameRooms \<times> out list" where
  "createGame rooms sid random36 =
     (let roomCode = generateRoomCode random36
      in (rooms(roomCode \<mapsto> newRoom sid), [CallbackRoomCode roomCode]))"

definition joinGame :: "gameRooms \<Rightarrow> string \<Rightarrow> string \<Rightarrow> string \<Rightarrow> gameRooms \<times> out list" where
  "joinGame rooms sid roomCode playerName =
     (case lookupRoom rooms roomCode of
        Own room \<Rightarrow>
          (let room' = room\<lparr>players := players room @ [(sid, playerName)],
                            scores := (scores room)(sid \<mapsto> Number 0)\<rparr>
           in (rooms(roomCode \<mapsto> room'),
               [Emit roomCode (UpdatePlayers (players room')), CallbackJoin True None]))
      | Inherited \<Rightarrow> (rooms, [Uncaught ''TypeError''])
      | Undefined \<Rightarrow> (rooms, [CallbackJoin False (Some ''Room not found.'')]))"

definition startGame :: "gameRooms \<Rightarrow> string \<Rightarrow> string \<Rightarrow> gameRooms \<times> out list" where
  "startGame rooms sid roomCode =
     (case lookupRoom rooms roomCode of
        Own room \<Rightarrow>
          (if sid = host room
           then (rooms(roomCode \<mapsto> room\<lparr>gameState := (gameState room)\<lparr>phase := PromptSubmission\<rparr>\<rparr>),
                 [Emit roomCode (PhaseChange PromptSubmission)])
           else (rooms, []))
      | Inherited \<Rightarrow> (rooms, [])
      | Undefined \<Rightarrow> (rooms, []))"

text \<open>What \<^verbatim>\<open>submitPrompt\<close> does after \<^verbatim>\<open>await generateAIImage(selectedPrompt)\<close>, on the
  room object it holds, with the outcome of the promise.\<close>

definition afterImage :: "string \<Rightarrow> room \<Rightarrow> string + string \<Rightarrow> room \<times> out list" where
  "afterImage roomCode room outcome =
     (case outcome of
        Inr url \<Rightarrow>
          (room\<lparr>gameState := (gameState room)\<lparr>imageUrl := url, phase := CaptionSubmission\<rparr>\<rparr>,
           [Emit roomCode (ImageGenerated url), Emit roomCode (PhaseChange CaptionSubmission)])
      | Inl error \<Rightarrow> (room, [ConsoleError error]))"

text \<open>\<open>random\<close> is the value of \<^verbatim>\<open>Math.random()\<close>. The handler is \<^verbatim>\<open>async\<close>: what
  follows the \<^verbatim>\<open>await\<close> runs in a later microtask, after any other handler that is
  dispatched in the same tick. \<open>submitPrompt\<close> is the handler run to its end with no
  other handler in between.\<close>

definition submitPrompt ::
  "gameRooms \<Rightarrow> string \<Rightarrow> string \<Rightarrow> string \<Rightarrow> rat \<Rightarrow> gameRooms \<times> out list" where
  "submitPrompt rooms sid roomCode prompt random =
     (case lookupRoom rooms roomCode of
        Own room \<Rightarrow>
          (let gs = (gameState room)\<lparr>prompts := prompts (gameState room) @ [(sid, prompt)]\<rparr>
           in if length (prompts gs) = length (players room)
              then
                (let selectedPrompt =
                       snd (prompts gs ! nat \<lfloor>random * of_nat (length (prompts gs))\<rfloor>);
                     resumed = afterImage roomCode (room\<lparr>gameState := gs\<rparr>)
                                 (generateAIImage selectedPrompt)
                 in (rooms(roomCode \<mapsto> fst resumed), snd resumed))
              else (rooms(roomCode \<mapsto> room\<lparr>gameState := gs\<rparr>), []))
      | Inherited \<Rightarrow> (rooms, [Uncaught ''TypeError''])
      | Undefined \<Rightarrow> (rooms, []))"

definition submitCaption ::
  "gameRooms \<Rightarrow> string \<Rightarrow> string \<Rightarrow> string \<Rightarrow> gameRooms \<times> out list" where
  "submitCaption rooms sid roomCode caption =
     (case lookupRoom rooms roomCode of
        Own room \<Rightarrow>
          (let gs = (gameState room)\<lparr>captions := captions (gameState room) @ [(sid, caption)]\<rparr>
           in if length (captions gs) = length (players room)
              then (rooms(roomCode \<mapsto> room\<lparr>gameState := gs\<lparr>phase := Voting\<rparr>\<rparr>),
                    [Emit roomCode (CaptionsReady (captions gs)),
                     Emit roomCode (PhaseChange Voting)])
              else (rooms(roomCode \<mapsto> room\<lparr>gameState := gs\<rparr>), []))
      | Inherited \<Rightarrow> (rooms, [Uncaught ''TypeError''])
      | Undefined \<Rightarrow> (rooms, []))"

definition getGameState :: "gameRooms \<Rightarrow> string \<Rightarrow> string \<Rightarrow> gameRooms \<times> out list" where
  "getGameState rooms sid roomCode =
     (case lookupRoom rooms roomCode of
        Own room \<Rightarrow> (rooms, [CallbackState (gameState room) (players room)])
      | Inherited \<Rightarrow> (rooms, [CallbackUndefined])
      | Undefined \<Rightarrow> (rooms, []))"

definition submitVote ::
  "gameRooms \<Rightarrow> string \<Rightarrow> string \<Rightarrow> string \<Rightarrow> gameRooms \<times> out list" where
  "submitVote rooms sid roomCode votedCaptionId =
     (case lookupRoom rooms roomCode of
        Own room \<Rightarrow>
          (let gs = (gameState room)\<lparr>votes := obj_set sid votedCaptionId (votes (gameState room))\<rparr>
           in if length (obj_keys (votes gs)) = length (players room)
              then
                (let ws = winners (voteCounts (votes gs));
                     sc = updateScores ws (scores room)
                 in (rooms(roomCode \<mapsto> room\<lparr>gameState := gs\<lparr>phase := Result\<rparr>, scores := sc\<rparr>),
                     [Emit roomCode (RoundResult ws sc),
                      Emit roomCode (PhaseChange Result),
                      SetTimeout roomCode 10000]))
              else (rooms(roomCode \<mapsto> room\<lparr>gameState := gs\<rparr>), []))
      | Inherited \<Rightarrow> (rooms, [Uncaught ''TypeError''])
      | Undefined \<Rightarrow> (rooms, []))"

text \<open>The body of the function that \<^verbatim>\<open>submitVote\<close> hands to \<^verbatim>\<open>setTimeout\<close>; it acts on
  the room object it was created for, whether or not the registry still holds it.\<close>

definition nextRound :: "string \<Rightarrow> room \<Rightarrow> room \<times> out list" where
  "nextRound roomCode room =
     (room\<lparr>gameState := (gameState room)\<lparr>round_no := round_no (gameState room) + 1,
                                           phase := PromptSubmission, prompts := [],
                                           imageUrl := [], captions := [], votes := []\<rparr>\<rparr>,
      [Emit roomCode (PhaseChange PromptSubmission)])"

text \<open>The body of the loop of the \<^verbatim>\<open>disconnect\<close> handler, for one room: the room as the
  loop leaves it, \<open>None\<close> when it is deleted, and the player list it broadcasts.\<close>

definition disconnectRoom :: "string \<Rightarrow> room \<Rightarrow> room option \<times> player list" where
  "disconnectRoom sid room =
     (let ps = filter (\<lambda>player. fst player \<noteq> sid) (players room);
          sc = (scores room)(sid := None);
          h = (if host room = sid \<and> 0 < length ps then fst (hd ps) else host room);
          room' = room\<lparr>players := ps, scores := sc, host := h\<rparr>
      in (if length ps = 0 then None else Some room', ps))"

text \<open>\<^verbatim>\<open>for (let roomCode in gameRooms)\<close> visits the rooms stored in the registry and no
  inherited member: every room goes through the loop body once, and the body touches that
  room only. The broadcasts are given per room code.\<close>

definition disconnect :: "gameRooms \<Rightarrow> string \<Rightarrow> gameRooms \<times> (string \<rightharpoonup> player list)" where
  "disconnect rooms sid =
     (\<lambda>roomCode. case rooms roomCode of
                    None \<Rightarrow> None
                  | Some room \<Rightarrow> fst (disconnectRoom sid room),
      \<lambda>roomCode. case rooms roomCode of
                    None \<Rightarrow> None
                  | Some room \<Rightarrow> Some (snd (disconnectRoom sid room)))"

subsection \<open>Sequences of events\<close>

datatype input =
    CreateGame string string
  | JoinGame string string string
  | StartGame string string
  | SubmitPrompt string string string rat
  | SubmitCaption string string string
  | GetGameState string string
  | SubmitVote string string string
  | Disconnect string

fun step :: "gameRooms \<Rightarrow> input \<Rightarrow> gameRooms" where
  "step rooms (CreateGame sid random36) = fst (createGame rooms sid random36)"
| "step rooms (JoinGame sid roomCode playerName) = fst (joinGame rooms sid roomCode playerName)"
| "step rooms (StartGame sid roomCode) = fst (startGame rooms sid roomCode)"
| "step rooms (SubmitPrompt sid roomCode prompt random) =
     fst (submitPrompt rooms sid roomCode prompt random)"
| "step rooms (SubmitCaption sid roomCode caption) = fst (submitCaption rooms sid roomCode caption)"
| "step rooms (GetGameState sid roomCode) = fst (getGameState rooms sid roomCode)"
| "step rooms (SubmitVote sid roomCode votedCaptionId) =
     fst (submitVote rooms sid roomCode votedCaptionId)"
| "step rooms (Disconnect sid) = fst (disconnect rooms sid)"

text \<open>A session: each event is handled to its end before the next one. (Two events
  dispatched in one tick while a prompt's image is awaited are not a session of this
  kind.)\<close>

definition run :: "input list \<Rightarrow> gameRooms" where
  "run evs = foldl step Map.empty evs"

subsection \<open>Notions used in the statements\<close>

text \<open>The phase and the prompts of the room stored under a code, the ids of a room's
  players, and the property that the host is one of the players unless there are none.\<close>

definition phaseOf :: "gameRooms \<Rightarrow> string \<Rightarrow> phase option" where
  "phaseOf rooms roomCode = map_option (\<lambda>room. phase (gameState room)) (rooms roomCode)"

definition promptsOf :: "gameRooms \<Rightarrow> string \<Rightarrow> (string \<times> string) list option" where
  "promptsOf rooms roomCode = map_option (\<lambda>room. prompts (gameState room)) (rooms roomCode)"

definition playerIds :: "room \<Rightarrow> string set" where
  "playerIds room = fst ` set (players room)"

definition hostPresent :: "room \<Rightarrow> bool" where
  "hostPresent room = (players room = [] \<or> host room \<in> playerIds room)"

text \<open>The captions of the room stored under a code, and the vote that a voter has in it.\<close>

definition captionsOf :: "gameRooms \<Rightarrow> string \<Rightarrow> (string \<times> string) list option" where
  "captionsOf rooms roomCode = map_option (\<lambda>room. captions (gameState room)) (rooms roomCode)"

definition voteOf :: "gameRooms \<Rightarrow> string \<Rightarrow> string \<Rightarrow> string option" where
  "voteOf rooms roomCode voter =
     (case rooms roomCode of
        None \<Rightarrow> None
      | Some room \<Rightarrow> map_of (votes (gameState room)) voter)"

section \<open>Auxiliary facts\<close>

subsection \<open>Objects\<close>

lemma lookupRoom_Some: "rooms roomCode = Some room \<Longrightarrow> lookupRoom rooms roomCode = Own room"
  by (simp add: lookupRoom_def)

lemma lookupRoom_Own: "lookupRoom rooms roomCode = Own room \<Longrightarrow> rooms roomCode = Some room"
  by (simp add: lookupRoom_def split: option.splits if_splits)

lemma map_of_obj_set: "map_of (obj_set k v kvs) = (map_of kvs)(k \<mapsto> v)"
  by (induction kvs) auto

lemma keys_obj_set: "fst ` set (obj_set k v kvs) = insert k (fst ` set kvs)"
proof (induction kvs)
  case Nil
  show ?case by simp
next
  case (Cons p kvs)
  obtain k' v' where p: "p = (k', v')" by (cases p)
  show ?case
  proof (cases "k' = k")
    case True
    with p show ?thesis by simp
  next
    case False
    with p Cons.IH show ?thesis by (simp add: insert_commute)
  qed
qed

lemma distinct_obj_set: "distinct (map fst kvs) \<Longrightarrow> distinct (map fst (obj_set k v kvs))"
  by (induction kvs) (auto simp: keys_obj_set)

lemma set_obj_set: "set (obj_set k v kvs) \<subseteq> insert (k, v) (set kvs)"
  by (induction kvs) (auto split: if_splits)

lemma length_obj_set:
  assumes "distinct (map fst kvs)"
  shows "length (obj_set k v kvs) = card (insert k (fst ` set kvs))"
proof -
  have "length (obj_set k v kvs) = length (map fst (obj_set k v kvs))" by simp
  also have "\<dots> = card (set (map fst (obj_set k v kvs)))"
    using distinct_obj_set [OF assms] by (simp only: distinct_card)
  also have "\<dots> = card (insert k (fst ` set kvs))"
    by (simp add: keys_obj_set)
  finally show ?thesis .
qed

lemma length_ownProperties: "length (ownProperties kvs) = length kvs"
proof -
  have "length (ownProperties kvs) =
          length (filter (\<lambda>kv. arrayIndex (fst kv) \<noteq> None) kvs) +
          length (filter (\<lambda>kv. \<not> arrayIndex (fst kv) \<noteq> None) kvs)"
    by (simp add: ownProperties_def)
  also have "\<dots> = length kvs" by (rule sum_length_filter_compl)
  finally show ?thesis .
qed

lemma length_obj_keys: "length (obj_keys kvs) = length kvs"
  by (simp add: obj_keys_def length_ownProperties)

lemma set_ownProperties: "set (ownProperties kvs) = set kvs"
  by (auto simp: ownProperties_def)

subsection \<open>Generated codes and winners are not named like an inherited member\<close>

lemma generateRoomCode_length: "length (generateRoomCode random36) \<le> 5"
  by (simp add: generateRoomCode_def toUpperCase_def substring_def)

lemma generateRoomCode_not_inherited: "generateRoomCode random36 \<notin> set objectPrototypeNames"
proof
  assume "generateRoomCode random36 \<in> set objectPrototypeNames"
  then have "7 \<le> length (generateRoomCode random36)"
    by (auto simp: objectPrototypeNames_def)
  with generateRoomCode_length [of random36] show False by simp
qed

lemma countVote_numbers:
  assumes "\<forall>n. (k, Count n) \<in> set vc \<longrightarrow> k \<notin> set objectPrototypeNames"
    and "(k, Count n) \<in> set (countVote vote vc)"
  shows "k \<notin> set objectPrototypeNames"
proof (cases "(k, Count n) \<in> set vc")
  case True
  with assms(1) show ?thesis by blast
next
  case False
  show ?thesis
  proof (cases "obj_get vc vote")
    case None
    with assms(2) False set_obj_set [of vote _ vc] show ?thesis
      by (auto simp: countVote_def split: if_splits)
  next
    case (Some c)
    then have in_vc: "(vote, c) \<in> set vc" by (simp add: obj_get_def map_of_SomeD)
    show ?thesis
    proof (cases c)
      case (Count m)
      with Some assms(2) False set_obj_set [of vote "Count (m + 1)" vc]
      have "k = vote" by (auto simp: countVote_def)
      with in_vc Count assms(1) show ?thesis by blast
    next
      case Text
      with Some assms(2) False set_obj_set [of vote Text vc]
      show ?thesis by (auto simp: countVote_def)
    qed
  qed
qed

lemma fold_countVote_numbers:
  assumes "\<forall>k n. (k, Count n) \<in> set vc \<longrightarrow> k \<notin> set objectPrototypeNames"
  shows "\<forall>k n. (k, Count n) \<in> set (fold countVote xs vc) \<longrightarrow> k \<notin> set objectPrototypeNames"
  using assms
proof (induction xs arbitrary: vc)
  case Nil
  then show ?case by simp
next
  case (Cons x xs)
  have "\<forall>k n. (k, Count n) \<in> set (countVote x vc) \<longrightarrow> k \<notin> set objectPrototypeNames"
    using Cons.prems countVote_numbers [of _ vc _ x] by blast
  from Cons.IH [OF this] show ?case by simp
qed

lemma winners_not_inherited:
  assumes "w \<in> set (winners (voteCounts vs))"
  shows "w \<notin> set objectPrototypeNames"
proof -
  from assms obtain n where "obj_get (voteCounts vs) w = Some (Count n)"
    by (auto simp: winners_def Let_def split: option.splits count.splits)
  then have "(w, Count n) \<in> set (voteCounts vs)"
    by (simp add: obj_get_def map_of_SomeD)
  moreover
  have "\<forall>k n. (k, Count n) \<in> set (fold countVote (obj_values vs) []) \<longrightarrow>
          k \<notin> set objectPrototypeNames"
    by (rule fold_countVote_numbers) simp
  ultimately show ?thesis unfolding voteCounts_def by blast
qed

subsection \<open>What each handler does to host and players\<close>

lemma createGame_room:
  "fst (createGame rooms sid random36) code = Some room' \<Longrightarrow>
     room' = newRoom sid \<or> rooms code = Some room'"
  by (auto simp: createGame_def Let_def split: if_splits)

lemma joinGame_room:
  "fst (joinGame rooms sid roomCode name) code = Some room' \<Longrightarrow>
     \<exists>room. rooms code = Some room \<and> host room' = host room \<and>
       (players room' = players room \<or> players room' = players room @ [(sid, name)])"
  by (auto simp: joinGame_def lookupRoom_def Let_def split: option.splits if_splits)

lemma startGame_room:
  "fst (startGame rooms sid roomCode) code = Some room' \<Longrightarrow>
     \<exists>room. rooms code = Some room \<and> host room' = host room \<and> players room' = players room"
  by (auto simp: startGame_def lookupRoom_def split: option.splits if_splits)

lemma submitPrompt_room:
  "fst (submitPrompt rooms sid roomCode prompt random) code = Some room' \<Longrightarrow>
     \<exists>room. rooms code = Some room \<and> host room' = host room \<and> players room' = players room"
  by (auto simp: submitPrompt_def generateAIImage_def afterImage_def lookupRoom_def Let_def
      split: option.splits if_splits)

lemma submitCaption_room:
  "fst (submitCaption rooms sid roomCode caption) code = Some room' \<Longrightarrow>
     \<exists>room. rooms code = Some room \<and> host room' = host room \<and> players room' = players room"
  by (auto simp: submitCaption_def lookupRoom_def Let_def split: option.splits if_splits)

lemma submitVote_room:
  "fst (submitVote rooms sid roomCode votedCaptionId) code = Some room' \<Longrightarrow>
     \<exists>room. rooms code = Some room \<and> host room' = host room \<and> players room' = players room"
  by (auto simp: submitVote_def lookupRoom_def Let_def split: option.splits if_splits)

lemma disconnect_room:
  "fst (disconnect rooms sid) code = Some room' \<Longrightarrow>
     \<exists>room. rooms code = Some room \<and> fst (disconnectRoom sid room) = Some room'"
  by (auto simp: disconnect_def split: option.splits)

lemma hd_filter_in:
  "filter P xs \<noteq> [] \<Longrightarrow> hd (filter P xs) \<in> set xs \<and> P (hd (filter P xs))"
  using hd_in_set [of "filter P xs"] by auto

lemma disconnectRoom_host:
  assumes "fst (disconnectRoom sid room) = Some room'"
  shows "players room' = filter (\<lambda>player. fst player \<noteq> sid) (players room)"
    and "players room' \<noteq> []"
    and "host room = sid \<Longrightarrow> host room' = fst (hd (players room'))"
    and "host room \<noteq> sid \<Longrightarrow> host room' = host room"
  using assms by (auto simp: disconnectRoom_def Let_def split: if_splits)

lemma disconnectRoom_hostPresent:
  assumes "fst (disconnectRoom sid room) = Some room'" and "hostPresent room"
  shows "hostPresent room'"
proof (cases "host room = sid")
  case True
  with disconnectRoom_host [OF assms(1)]
  have "host room' = fst (hd (players room'))" and "players room' \<noteq> []"
    by auto
  then show ?thesis by (simp add: hostPresent_def playerIds_def)
next
  case False
  with disconnectRoom_host [OF assms(1)]
  have h: "host room' = host room"
    and p: "players room' = filter (\<lambda>player. fst player \<noteq> sid) (players room)"
    and ne: "players room' \<noteq> []"
    by auto
  from ne p have "players room \<noteq> []" by auto
  with assms(2) have "host room \<in> fst ` set (players room)"
    by (simp add: hostPresent_def playerIds_def)
  with False h p show ?thesis by (auto simp: hostPresent_def playerIds_def)
qed

lemma keeps_hostPresent:
  assumes "rooms code' = Some room" and "host room' = host room" and "players room' = players room"
    and "hostPresent room"
  shows "hostPresent room'"
  using assms by (simp add: hostPresent_def playerIds_def)

lemma step_hostPresent:
  assumes inv: "\<forall>code room. rooms code = Some room \<longrightarrow> hostPresent room"
    and join: "\<forall>sid code name room. ev = JoinGame sid code name \<and> rooms code = Some room \<longrightarrow>
                 players room \<noteq> [] \<or> sid = host room"
    and res: "step rooms ev code' = Some room'"
  shows "hostPresent room'"
proof (cases ev)
  case (CreateGame sid random36)
  with res have "fst (createGame rooms sid random36) code' = Some room'" by simp
  from createGame_room [OF this] have "room' = newRoom sid \<or> rooms code' = Some room'" .
  then show ?thesis
  proof
    assume "room' = newRoom sid"
    then show ?thesis by (simp add: hostPresent_def newRoom_def)
  next
    assume "rooms code' = Some room'"
    with inv show ?thesis by blast
  qed
next
  case (JoinGame sid roomCode name)
  with res have j: "fst (joinGame rooms sid roomCode name) code' = Some room'" by simp
  from joinGame_room [OF this] obtain room where r: "rooms code' = Some room"
    "host room' = host room"
    "players room' = players room \<or> players room' = players room @ [(sid, name)]"
    by blast
  from inv r(1) have hp: "hostPresent room" by blast
  show ?thesis
  proof (cases "players room' = players room")
    case True
    with r hp show ?thesis by (simp add: hostPresent_def playerIds_def)
  next
    case False
    with r(3) have p: "players room' = players room @ [(sid, name)]" by blast
    have "fst (joinGame rooms sid roomCode name) code' \<noteq> rooms code'"
      using False r(1) j by auto
    then have "code' = roomCode"
      by (auto simp: joinGame_def lookupRoom_def Let_def split: option.splits if_splits)
    with join JoinGame r(1) have "players room \<noteq> [] \<or> sid = host room" by blast
    with hp p r(2) show ?thesis by (auto simp: hostPresent_def playerIds_def)
  qed
next
  case (StartGame sid roomCode)
  with res have "fst (startGame rooms sid roomCode) code' = Some room'" by simp
  from startGame_room [OF this] obtain room where r: "rooms code' = Some room"
    "host room' = host room" "players room' = players room" by blast
  from inv r(1) have "hostPresent room" by blast
  with r show ?thesis by (rule keeps_hostPresent)
next
  case (SubmitPrompt sid roomCode prompt random)
  with res have "fst (submitPrompt rooms sid roomCode prompt random) code' = Some room'" by simp
  from submitPrompt_room [OF this] obtain room where r: "rooms code' = Some room"
    "host room' = host room" "players room' = players room" by blast
  from inv r(1) have "hostPresent room" by blast
  with r show ?thesis by (rule keeps_hostPresent)
next
  case (SubmitCaption sid roomCode caption)
  with res have "fst (submitCaption rooms sid roomCode caption) code' = Some room'" by simp
  from submitCaption_room [OF this] obtain room where r: "rooms code' = Some room"
    "host room' = host room" "players room' = players room" by blast
  from inv r(1) have "hostPresent room" by blast
  with r show ?thesis by (rule keeps_hostPresent)
next
  case (GetGameState sid roomCode)
  with res have "rooms code' = Some room'" by (simp add: getGameState_def lookupRoom_def split: option.splits if_splits)
  with inv show ?thesis by blast
next
  case (SubmitVote sid roomCode votedCaptionId)
  with res have "fst (submitVote rooms sid roomCode votedCaptionId) code' = Some room'" by simp
  from submitVote_room [OF this] obtain room where r: "rooms code' = Some room"
    "host room' = host room" "players room' = players room" by blast
  from inv r(1) have "hostPresent room" by blast
  with r show ?thesis by (rule keeps_hostPresent)
next
  case (Disconnect sid)
  with res have "fst (disconnect rooms sid) code' = Some room'" by simp
  from disconnect_room [OF this] obtain room where r: "rooms code' = Some room"
    "fst (disconnectRoom sid room) = Some room'" by blast
  from inv r(1) have "hostPresent room" by blast
  with r(2) show ?thesis by (rule disconnectRoom_hostPresent)
qed

lemma disconnect_reassigns:
  assumes "rooms code = Some room" and "host room = sid"
    and "fst (disconnect rooms sid) code = Some room'"
  shows "players room' = filter (\<lambda>player. fst player \<noteq> sid) (players room) \<and>
         players room' \<noteq> [] \<and> host room' = fst (hd (players room')) \<and> host room' \<noteq> sid"
proof -
  from assms(1,3) have d: "fst (disconnectRoom sid room) = Some room'"
    by (simp add: disconnect_def)
  from disconnectRoom_host [OF d] assms(2)
  have p: "players room' = filter (\<lambda>player. fst player \<noteq> sid) (players room)"
    and ne: "players room' \<noteq> []" and h: "host room' = fst (hd (players room'))"
    by auto
  from ne p have "fst (hd (players room')) \<noteq> sid"
    using hd_filter_in [of "\<lambda>player. fst player \<noteq> sid" "players room"] by simp
  with p ne h show ?thesis by simp
qed

lemma filter_other_ids:
  "sid \<notin> fst ` set ps \<Longrightarrow> filter (\<lambda>player. fst player \<noteq> sid) ps = ps"
  by (induction ps) auto

subsection \<open>Example sessions\<close>

text \<open>The code that \<^verbatim>\<open>generateRoomCode\<close> makes of \<^verbatim>\<open>0.4fzyo82mvyr\<close>, and the
  unfolding rules that run a session of events from the empty registry.\<close>

lemma code_4FZYO: "generateRoomCode ''0.4fzyo82mvyr'' = ''4FZYO''"
  by (simp add: generateRoomCode_def toUpperCase_def substring_def)

lemmas handler_defs = createGame_def joinGame_def startGame_def submitPrompt_def submitCaption_def
  getGameState_def submitVote_def disconnect_def disconnectRoom_def newRoom_def generateAIImage_def
  afterImage_def lookupRoom_def objectPrototypeNames_def run_def Let_def length_obj_keys

lemmas tally_defs = voteCounts_def countVote_def winners_def math_max_def updateScores_def
  obj_get_def obj_keys_def obj_values_def ownProperties_def arrayIndex_def digitValue_def

lemma single_player_started:
  "run [CreateGame ''h'' ''0.4fzyo82mvyr'', JoinGame ''p'' ''4FZYO'' ''Ann'', StartGame ''h'' ''4FZYO'']
     ''4FZYO'' =
     Some \<lparr>host = ''h'', players = [(''p'', ''Ann'')],
           gameState = \<lparr>phase = PromptSubmission, round_no = 1, prompts = [], imageUrl = [],
                        captions = [], votes = []\<rparr>,
           scores = [''p'' \<mapsto> Number 0]\<rparr>"
  by (simp add: handler_defs code_4FZYO)

lemma two_players_started:
  "run [CreateGame ''h'' ''0.4fzyo82mvyr'', JoinGame ''a'' ''4FZYO'' ''Ann'',
        JoinGame ''b'' ''4FZYO'' ''Bob'', StartGame ''h'' ''4FZYO''] ''4FZYO'' =
     Some \<lparr>host = ''h'', players = [(''a'', ''Ann''), (''b'', ''Bob'')],
           gameState = \<lparr>phase = PromptSubmission, round_no = 1, prompts = [], imageUrl = [],
                        captions = [], votes = []\<rparr>,
           scores = [''a'' \<mapsto> Number 0, ''b'' \<mapsto> Number 0]\<rparr>"
  by (simp add: handler_defs code_4FZYO)

lemma caption_first_room:
  "run [CreateGame ''h'' ''0.4fzyo82mvyr'', JoinGame ''p'' ''4FZYO'' ''Ann'',
        SubmitCaption ''p'' ''4FZYO'' ''funny''] ''4FZYO'' =
     Some \<lparr>host = ''h'', players = [(''p'', ''Ann'')],
           gameState = \<lparr>phase = Voting, round_no = 1, prompts = [], imageUrl = [],
                        captions = [(''p'', ''funny'')], votes = []\<rparr>,
           scores = [''p'' \<mapsto> Number 0]\<rparr>"
  by (simp add: handler_defs code_4FZYO)

lemma host_joined_room:
  "run [CreateGame ''h'' ''0.4fzyo82mvyr'', JoinGame ''h'' ''4FZYO'' ''Hal'',
        JoinGame ''p'' ''4FZYO'' ''Ann''] =
     [''4FZYO'' \<mapsto>
        \<lparr>host = ''h'', players = [(''h'', ''Hal''), (''p'', ''Ann'')],
         gameState = \<lparr>phase = Waiting, round_no = 1, prompts = [], imageUrl = [],
                      captions = [], votes = []\<rparr>,
         scores = [''h'' \<mapsto> Number 0, ''p'' \<mapsto> Number 0]\<rparr>]"
  by (simp add: handler_defs code_4FZYO)

lemma code_again: "generateRoomCode ''0.4fzyo9k3x1q'' = ''4FZYO''"
  by (simp add: generateRoomCode_def toUpperCase_def substring_def)

section \<open>Properties\<close>

text \<open>C1. The claim: the phase leaves promptSubmission, captionSubmission or voting if and
  only if the matching collection has as many entries as the room has players when the
  submission arrives, and never leaves promptSubmission while fewer prompts than players
  are collected. The handlers do not look at the phase, so this fails: in a started room
  with one player and no prompt, that player's caption moves the phase from
  promptSubmission to voting.\<close>

theorem caption_leaves_promptSubmission_without_prompts:
  "run [CreateGame ''h'' ''0.4fzyo82mvyr'', JoinGame ''p'' ''4FZYO'' ''Ann'', StartGame ''h'' ''4FZYO'']
     ''4FZYO'' =
     Some \<lparr>host = ''h'', players = [(''p'', ''Ann'')],
           gameState = \<lparr>phase = PromptSubmission, round_no = 1, prompts = [], imageUrl = [],
                        captions = [], votes = []\<rparr>,
           scores = [''p'' \<mapsto> Number 0]\<rparr> \<and>
   run [CreateGame ''h'' ''0.4fzyo82mvyr'', JoinGame ''p'' ''4FZYO'' ''Ann'', StartGame ''h'' ''4FZYO'',
        SubmitCaption ''p'' ''4FZYO'' ''a cat'']
     ''4FZYO'' =
     Some \<lparr>host = ''h'', players = [(''p'', ''Ann'')],
           gameState = \<lparr>phase = Voting, round_no = 1, prompts = [], imageUrl = [],
                        captions = [(''p'', ''a cat'')], votes = []\<rparr>,
           scores = [''p'' \<mapsto> Number 0]\<rparr>"
  by (simp add: handler_defs code_4FZYO)

text \<open>C1, amended. Each of the three submission handlers, on a room that exists, sets the
  phase to its own target (captionSubmission for a prompt, voting for a caption, result
  for a vote) exactly when its own collection, with the new submission recorded, has as
  many entries as the room has players; otherwise it leaves the phase as it was. The
  phase the room is in plays no part.\<close>

theorem submission_sets_phase_iff_gate:
  "rooms roomCode = Some room \<Longrightarrow>
    phaseOf (fst (submitPrompt rooms sid roomCode prompt random)) roomCode =
      Some (if length (prompts (gameState room)) + 1 = length (players room)
            then CaptionSubmission else phase (gameState room)) \<and>
    phaseOf (fst (submitCaption rooms sid roomCode caption)) roomCode =
      Some (if length (captions (gameState room)) + 1 = length (players room)
            then Voting else phase (gameState room)) \<and>
    phaseOf (fst (submitVote rooms sid roomCode votedCaptionId)) roomCode =
      Some (if length (obj_keys (obj_set sid votedCaptionId (votes (gameState room)))) =
                 length (players room)
            then Result else phase (gameState room))"
  by (simp add: phaseOf_def submitPrompt_def submitCaption_def submitVote_def
      generateAIImage_def afterImage_def lookupRoom_def Let_def)

theorem submission_sets_phase_iff_gate_witness:
  "phaseOf (fst (submitPrompt
       (run [CreateGame ''h'' ''0.4fzyo82mvyr'', JoinGame ''a'' ''4FZYO'' ''Ann'',
             JoinGame ''b'' ''4FZYO'' ''Bob'', StartGame ''h'' ''4FZYO''])
       ''a'' ''4FZYO'' ''a cat'' 0)) ''4FZYO'' = Some PromptSubmission \<and>
   phaseOf (fst (submitPrompt
       (run [CreateGame ''h'' ''0.4fzyo82mvyr'', JoinGame ''p'' ''4FZYO'' ''Ann'',
             StartGame ''h'' ''4FZYO''])
       ''p'' ''4FZYO'' ''a cat'' 0)) ''4FZYO'' = Some CaptionSubmission \<and>
   phaseOf (fst (submitCaption
       (run [CreateGame ''h'' ''0.4fzyo82mvyr'', JoinGame ''p'' ''4FZYO'' ''Ann'',
             StartGame ''h'' ''4FZYO''])
       ''p'' ''4FZYO'' ''funny'')) ''4FZYO'' = Some Voting \<and>
   phaseOf (fst (submitVote
       (run [CreateGame ''h'' ''0.4fzyo82mvyr'', JoinGame ''p'' ''4FZYO'' ''Ann'',
             StartGame ''h'' ''4FZYO''])
       ''p'' ''4FZYO'' ''p'')) ''4FZYO'' = Some Result"
  using
    submission_sets_phase_iff_gate
      [of "run [CreateGame ''h'' ''0.4fzyo82mvyr'', JoinGame ''a'' ''4FZYO'' ''Ann'',
                JoinGame ''b'' ''4FZYO'' ''Bob'', StartGame ''h'' ''4FZYO'']" "''4FZYO''",
       OF two_players_started, of "''a''" "''a cat''" 0]
    submission_sets_phase_iff_gate
      [of "run [CreateGame ''h'' ''0.4fzyo82mvyr'', JoinGame ''p'' ''4FZYO'' ''Ann'',
                StartGame ''h'' ''4FZYO'']" "''4FZYO''",
       OF single_player_started, of "''p''" "''a cat''" 0 "''funny''" "''p''"]
  by (simp add: length_obj_keys)

text \<open>C2. The claim: when the votes are complete the winners are all the targets with the
  greatest tally, each winner's score goes up by exactly 1 and no other score changes.
  Two sessions in which the handler does otherwise. In the first, a player who has
  submitted a caption and left gets both votes: the handler announces that player the
  winner and stores \<^verbatim>\<open>NaN\<close> as its score, since there is no score to add 1 to. In the second,
  one vote goes to a player and one to the target \<^verbatim>\<open>toString\<close>: both have the tally 1,
  but the handler's count for a name that every object inherits is a text, the maximum is
  \<^verbatim>\<open>NaN\<close>, and it announces no winner and changes no score.\<close>

theorem submitVote_tally_failing_inputs:
  "snd (submitVote
         (run [CreateGame ''h'' ''0.4fzyo82mvyr'', JoinGame ''a'' ''4FZYO'' ''Ann'',
               JoinGame ''b'' ''4FZYO'' ''Bob'', JoinGame ''c'' ''4FZYO'' ''Cy'',
               SubmitCaption ''c'' ''4FZYO'' ''funny'', Disconnect ''c'',
               SubmitVote ''a'' ''4FZYO'' ''c''])
         ''b'' ''4FZYO'' ''c'') =
     [Emit ''4FZYO''
        (RoundResult [''c''] [''a'' \<mapsto> Number 0, ''b'' \<mapsto> Number 0, ''c'' \<mapsto> NaN]),
      Emit ''4FZYO'' (PhaseChange Result), SetTimeout ''4FZYO'' 10000] \<and>
   snd (submitVote
         (run [CreateGame ''h'' ''0.4fzyo82mvyr'', JoinGame ''a'' ''4FZYO'' ''Ann'',
               JoinGame ''b'' ''4FZYO'' ''Bob'', SubmitVote ''a'' ''4FZYO'' ''b''])
         ''b'' ''4FZYO'' ''toString'') =
     [Emit ''4FZYO'' (RoundResult [] [''a'' \<mapsto> Number 0, ''b'' \<mapsto> Number 0]),
      Emit ''4FZYO'' (PhaseChange Result), SetTimeout ''4FZYO'' 10000]"
  by (simp add: handler_defs tally_defs code_4FZYO)

text \<open>C3. The claim: after every operation the keys of a room's scores are exactly the ids
  of its players, and every score is an integer that is at least 0. Here three players
  join, the third submits a caption and disconnects, and the two who remain vote for that
  caption: the tally finds the departed player the winner, and adding 1 to a score that is
  no longer there stores \<^verbatim>\<open>NaN\<close> under an id that is not a player's.\<close>

theorem vote_for_departed_player_stores_NaN:
  "run [CreateGame ''h'' ''0.4fzyo82mvyr'', JoinGame ''a'' ''4FZYO'' ''Ann'',
        JoinGame ''b'' ''4FZYO'' ''Bob'', JoinGame ''c'' ''4FZYO'' ''Cy'',
        SubmitCaption ''c'' ''4FZYO'' ''funny'', Disconnect ''c'',
        SubmitVote ''a'' ''4FZYO'' ''c'', SubmitVote ''b'' ''4FZYO'' ''c''] ''4FZYO'' =
     Some \<lparr>host = ''h'', players = [(''a'', ''Ann''), (''b'', ''Bob'')],
           gameState = \<lparr>phase = Result, round_no = 1, prompts = [], imageUrl = [],
                        captions = [(''c'', ''funny'')],
                        votes = [(''a'', ''c''), (''b'', ''c'')]\<rparr>,
           scores = [''a'' \<mapsto> Number 0, ''b'' \<mapsto> Number 0, ''c'' \<mapsto> NaN]\<rparr>"
  by (simp add: handler_defs tally_defs code_4FZYO)

text \<open>C4. The claim: startGame changes the room only when the caller is the host and the
  phase is waiting. The handler compares the caller with the host and nothing else: here
  the only player's caption has moved a room from waiting to voting, and the host's
  startGame then sets the phase to promptSubmission.\<close>

theorem startGame_by_host_outside_waiting:
  "run [CreateGame ''h'' ''0.4fzyo82mvyr'', JoinGame ''p'' ''4FZYO'' ''Ann'',
        SubmitCaption ''p'' ''4FZYO'' ''funny''] ''4FZYO'' =
     Some \<lparr>host = ''h'', players = [(''p'', ''Ann'')],
           gameState = \<lparr>phase = Voting, round_no = 1, prompts = [], imageUrl = [],
                        captions = [(''p'', ''funny'')], votes = []\<rparr>,
           scores = [''p'' \<mapsto> Number 0]\<rparr> \<and>
   run [CreateGame ''h'' ''0.4fzyo82mvyr'', JoinGame ''p'' ''4FZYO'' ''Ann'',
        SubmitCaption ''p'' ''4FZYO'' ''funny'', StartGame ''h'' ''4FZYO''] ''4FZYO'' =
     Some \<lparr>host = ''h'', players = [(''p'', ''Ann'')],
           gameState = \<lparr>phase = PromptSubmission, round_no = 1, prompts = [], imageUrl = [],
                        captions = [(''p'', ''funny'')], votes = []\<rparr>,
           scores = [''p'' \<mapsto> Number 0]\<rparr>"
  by (simp add: handler_defs code_4FZYO)

text \<open>C4, amended. startGame changes the room exactly when the caller is its host, whatever
  the phase: then the phase becomes promptSubmission, nothing else in the room and no
  other room changes, and the phase change is broadcast. For any other caller, and for a
  code with no room, the registry is returned as it was and nothing is sent.\<close>

theorem startGame_effect:
  "(rooms roomCode = None \<longrightarrow> startGame rooms sid roomCode = (rooms, [])) \<and>
   (\<forall>room. rooms roomCode = Some room \<longrightarrow>
      (sid \<noteq> host room \<longrightarrow> startGame rooms sid roomCode = (rooms, [])) \<and>
      (sid = host room \<longrightarrow>
         startGame rooms sid roomCode =
           (rooms(roomCode \<mapsto> room\<lparr>gameState := (gameState room)\<lparr>phase := PromptSubmission\<rparr>\<rparr>),
            [Emit roomCode (PhaseChange PromptSubmission)])))"
  by (simp add: startGame_def lookupRoom_def)

text \<open>In a room that is in the voting phase: a player who is not the host, the host, and a
  code with no room.\<close>

theorem startGame_effect_witness:
  "startGame (run [CreateGame ''h'' ''0.4fzyo82mvyr'', JoinGame ''p'' ''4FZYO'' ''Ann'',
                   SubmitCaption ''p'' ''4FZYO'' ''funny'']) ''p'' ''4FZYO'' =
     (run [CreateGame ''h'' ''0.4fzyo82mvyr'', JoinGame ''p'' ''4FZYO'' ''Ann'',
           SubmitCaption ''p'' ''4FZYO'' ''funny''], []) \<and>
   phaseOf (fst (startGame (run [CreateGame ''h'' ''0.4fzyo82mvyr'', JoinGame ''p'' ''4FZYO'' ''Ann'',
                   SubmitCaption ''p'' ''4FZYO'' ''funny'']) ''h'' ''4FZYO'')) ''4FZYO'' =
     Some PromptSubmission \<and>
   startGame (run [CreateGame ''h'' ''0.4fzyo82mvyr'', JoinGame ''p'' ''4FZYO'' ''Ann'',
                   SubmitCaption ''p'' ''4FZYO'' ''funny'']) ''h'' ''NOSUCH'' =
     (run [CreateGame ''h'' ''0.4fzyo82mvyr'', JoinGame ''p'' ''4FZYO'' ''Ann'',
           SubmitCaption ''p'' ''4FZYO'' ''funny''], [])"
proof -
  let ?R = "run [CreateGame ''h'' ''0.4fzyo82mvyr'', JoinGame ''p'' ''4FZYO'' ''Ann'',
                 SubmitCaption ''p'' ''4FZYO'' ''funny'']"
  have none: "?R ''NOSUCH'' = None" by (simp add: handler_defs code_4FZYO)
  from startGame_effect [of ?R "''4FZYO''" "''p''"] caption_first_room
  have 1: "startGame ?R ''p'' ''4FZYO'' = (?R, [])" by simp
  from startGame_effect [of ?R "''4FZYO''" "''h''"] caption_first_room
  have 2: "phaseOf (fst (startGame ?R ''h'' ''4FZYO'')) ''4FZYO'' = Some PromptSubmission"
    by (simp add: phaseOf_def)
  from startGame_effect [of ?R "''NOSUCH''" "''h''"] none
  have 3: "startGame ?R ''h'' ''NOSUCH'' = (?R, [])" by simp
  from 1 2 3 show ?thesis by simp
qed

text \<open>C5. The claim: submitPrompt keeps at most one prompt per connection and a second
  submission replaces the first. The handler pushes onto the array: after two submissions
  by the same connection both entries are there.\<close>

theorem resubmitted_prompt_is_second_entry:
  "run [CreateGame ''h'' ''0.4fzyo82mvyr'', JoinGame ''a'' ''4FZYO'' ''Ann'',
        JoinGame ''b'' ''4FZYO'' ''Bob'', JoinGame ''c'' ''4FZYO'' ''Cy'', StartGame ''h'' ''4FZYO'',
        SubmitPrompt ''a'' ''4FZYO'' ''a cat'' 0, SubmitPrompt ''a'' ''4FZYO'' ''a dog'' 0] ''4FZYO'' =
     Some \<lparr>host = ''h'', players = [(''a'', ''Ann''), (''b'', ''Bob''), (''c'', ''Cy'')],
           gameState = \<lparr>phase = PromptSubmission, round_no = 1,
                        prompts = [(''a'', ''a cat''), (''a'', ''a dog'')], imageUrl = [],
                        captions = [], votes = []\<rparr>,
           scores = [''a'' \<mapsto> Number 0, ''b'' \<mapsto> Number 0, ''c'' \<mapsto> Number 0]\<rparr>"
  by (simp add: handler_defs code_4FZYO)

text \<open>C5, amended. submitPrompt appends: every call on an existing room adds one entry with
  the caller's id and text at the end of the prompts and keeps every earlier entry, so a
  second submission by the same connection adds a second entry after the first.\<close>

theorem submitPrompt_appends:
  "rooms roomCode = Some room \<Longrightarrow>
     promptsOf (fst (submitPrompt rooms sid roomCode prompt random)) roomCode =
       Some (prompts (gameState room) @ [(sid, prompt)]) \<and>
     promptsOf (fst (submitPrompt (fst (submitPrompt rooms sid roomCode prompt random))
                       sid roomCode prompt' random')) roomCode =
       Some (prompts (gameState room) @ [(sid, prompt), (sid, prompt')])"
  by (simp add: promptsOf_def submitPrompt_def generateAIImage_def afterImage_def lookupRoom_def
      Let_def)

theorem submitPrompt_appends_witness:
  "promptsOf (fst (submitPrompt
       (run [CreateGame ''h'' ''0.4fzyo82mvyr'', JoinGame ''a'' ''4FZYO'' ''Ann'',
             JoinGame ''b'' ''4FZYO'' ''Bob'', StartGame ''h'' ''4FZYO''])
       ''a'' ''4FZYO'' ''a cat'' 0)) ''4FZYO'' = Some [(''a'', ''a cat'')] \<and>
   promptsOf (fst (submitPrompt (fst (submitPrompt
       (run [CreateGame ''h'' ''0.4fzyo82mvyr'', JoinGame ''a'' ''4FZYO'' ''Ann'',
             JoinGame ''b'' ''4FZYO'' ''Bob'', StartGame ''h'' ''4FZYO''])
       ''a'' ''4FZYO'' ''a cat'' 0)) ''a'' ''4FZYO'' ''a dog'' 0)) ''4FZYO'' =
     Some [(''a'', ''a cat''), (''a'', ''a dog'')]"
  using submitPrompt_appends [of "run [CreateGame ''h'' ''0.4fzyo82mvyr'', JoinGame ''a'' ''4FZYO'' ''Ann'',
             JoinGame ''b'' ''4FZYO'' ''Bob'', StartGame ''h'' ''4FZYO'']" "''4FZYO''",
            OF two_players_started, of "''a''" "''a cat''" 0 "''a dog''" 0]
  by simp

text \<open>C6. The claim: after every operation the host of a room is one of its players whenever
  it has players. createGame makes the creator the host without making it a player, so the
  first join by another connection leaves a room whose only player is not the host.\<close>

theorem host_absent_after_join:
  "run [CreateGame ''h'' ''0.4fzyo82mvyr'', JoinGame ''p'' ''4FZYO'' ''Ann''] ''4FZYO'' =
     Some \<lparr>host = ''h'', players = [(''p'', ''Ann'')],
           gameState = \<lparr>phase = Waiting, round_no = 1, prompts = [], imageUrl = [],
                        captions = [], votes = []\<rparr>,
           scores = [''p'' \<mapsto> Number 0]\<rparr> \<and>
   \<not> hostPresent
       \<lparr>host = ''h'', players = [(''p'', ''Ann'')],
        gameState = \<lparr>phase = Waiting, round_no = 1, prompts = [], imageUrl = [],
                     captions = [], votes = []\<rparr>,
        scores = [''p'' \<mapsto> Number 0]\<rparr>"
  by (simp add: handler_defs code_4FZYO hostPresent_def playerIds_def)

text \<open>C6, amended. If in every room the host is among the players or there are no players,
  this still holds after any event except a join, into a room without players, by a
  connection that is not its host. When the host of a room disconnects and the room
  survives, its players are the former ones without the host, and the new host is the
  first of them and is not the connection that left.\<close>

theorem host_stays_present:
  "((\<forall>code room. rooms code = Some room \<longrightarrow> hostPresent room) \<and>
    (\<forall>sid code name room. ev = JoinGame sid code name \<and> rooms code = Some room \<longrightarrow>
        players room \<noteq> [] \<or> sid = host room) \<and>
    step rooms ev code' = Some room' \<longrightarrow> hostPresent room') \<and>
   (rooms code' = Some room \<and> host room = sid \<and> fst (disconnect rooms sid) code' = Some room' \<longrightarrow>
      players room' = filter (\<lambda>player. fst player \<noteq> sid) (players room) \<and>
      players room' \<noteq> [] \<and> host room' = fst (hd (players room')) \<and> host room' \<noteq> sid)"
  using step_hostPresent [of rooms ev code' room'] disconnect_reassigns [of rooms code' room sid room']
  by blast

text \<open>The host has joined its own room, another player has joined, and the host leaves.\<close>

theorem host_stays_present_witness:
  "step (run [CreateGame ''h'' ''0.4fzyo82mvyr'', JoinGame ''h'' ''4FZYO'' ''Hal'',
              JoinGame ''p'' ''4FZYO'' ''Ann'']) (Disconnect ''h'') ''4FZYO'' =
     Some \<lparr>host = ''p'', players = [(''p'', ''Ann'')],
           gameState = \<lparr>phase = Waiting, round_no = 1, prompts = [], imageUrl = [],
                        captions = [], votes = []\<rparr>,
           scores = [''p'' \<mapsto> Number 0]\<rparr> \<and>
   hostPresent
     \<lparr>host = ''p'', players = [(''p'', ''Ann'')],
      gameState = \<lparr>phase = Waiting, round_no = 1, prompts = [], imageUrl = [],
                   captions = [], votes = []\<rparr>,
      scores = [''p'' \<mapsto> Number 0]\<rparr>"
proof -
  let ?R = "run [CreateGame ''h'' ''0.4fzyo82mvyr'', JoinGame ''h'' ''4FZYO'' ''Hal'',
                 JoinGame ''p'' ''4FZYO'' ''Ann'']"
  let ?r' = "\<lparr>host = ''p'', players = [(''p'', ''Ann'')],
      gameState = \<lparr>phase = Waiting, round_no = 1, prompts = [], imageUrl = [],
                   captions = [], votes = []\<rparr>,
      scores = [''p'' \<mapsto> Number 0]\<rparr>"
  have inv: "\<forall>code room. ?R code = Some room \<longrightarrow> hostPresent room"
    by (simp add: host_joined_room hostPresent_def playerIds_def)
  have join: "\<forall>sid code name room. Disconnect ''h'' = JoinGame sid code name \<and> ?R code = Some room \<longrightarrow>
                 players room \<noteq> [] \<or> sid = host room"
    by simp
  have res: "step ?R (Disconnect ''h'') ''4FZYO'' = Some ?r'"
    by (simp add: host_joined_room disconnect_def disconnectRoom_def Let_def)
  from host_stays_present [of ?R "Disconnect ''h''" "''4FZYO''" ?r'] inv join res
  have "hostPresent ?r'" by blast
  with res show ?thesis by simp
qed

text \<open>C7. The claim: createGame returns a code that no live room has and never replaces a
  room. The code is drawn at random and not compared with the registry: here the second
  draw starts with the same five digits as the first, the same code is returned, and the
  room that had a player is replaced by an empty one.\<close>

theorem createGame_replaces_live_room:
  "run [CreateGame ''h'' ''0.4fzyo82mvyr'', JoinGame ''p'' ''4FZYO'' ''Ann''] ''4FZYO'' =
     Some \<lparr>host = ''h'', players = [(''p'', ''Ann'')],
           gameState = \<lparr>phase = Waiting, round_no = 1, prompts = [], imageUrl = [],
                        captions = [], votes = []\<rparr>,
           scores = [''p'' \<mapsto> Number 0]\<rparr> \<and>
   snd (createGame (run [CreateGame ''h'' ''0.4fzyo82mvyr'', JoinGame ''p'' ''4FZYO'' ''Ann''])
          ''g'' ''0.4fzyo9k3x1q'') = [CallbackRoomCode ''4FZYO''] \<and>
   fst (createGame (run [CreateGame ''h'' ''0.4fzyo82mvyr'', JoinGame ''p'' ''4FZYO'' ''Ann''])
          ''g'' ''0.4fzyo9k3x1q'') ''4FZYO'' =
     Some \<lparr>host = ''g'', players = [],
           gameState = \<lparr>phase = Waiting, round_no = 1, prompts = [], imageUrl = [],
                        captions = [], votes = []\<rparr>,
           scores = Map.empty\<rparr>"
  by (simp add: handler_defs code_4FZYO code_again)

text \<open>C7, amended. createGame answers with the code it has drawn and stores under it a new
  room in the waiting phase, with the caller as host and no players and no scores. The
  rooms under every other code are as before; so when the drawn code is not in use no
  existing room is changed. (When it is in use, the room under it is replaced.)\<close>

theorem createGame_inserts:
  "snd (createGame rooms sid random36) = [CallbackRoomCode (generateRoomCode random36)] \<and>
   fst (createGame rooms sid random36) (generateRoomCode random36) =
     Some \<lparr>host = sid, players = [],
           gameState = \<lparr>phase = Waiting, round_no = 1, prompts = [], imageUrl = [],
                        captions = [], votes = []\<rparr>,
           scores = Map.empty\<rparr> \<and>
   (\<forall>code. code \<noteq> generateRoomCode random36 \<longrightarrow>
            fst (createGame rooms sid random36) code = rooms code) \<and>
   (rooms (generateRoomCode random36) = None \<longrightarrow>
      (\<forall>code room. rooms code = Some room \<longrightarrow>
                    fst (createGame rooms sid random36) code = Some room))"
  by (auto simp: createGame_def newRoom_def Let_def)

theorem createGame_inserts_witness:
  "snd (createGame (run [CreateGame ''h'' ''0.4fzyo82mvyr'', JoinGame ''p'' ''4FZYO'' ''Ann''])
          ''g'' ''0.9x2ab7'') = [CallbackRoomCode ''9X2AB''] \<and>
   fst (createGame (run [CreateGame ''h'' ''0.4fzyo82mvyr'', JoinGame ''p'' ''4FZYO'' ''Ann''])
          ''g'' ''0.9x2ab7'') ''4FZYO'' =
     Some \<lparr>host = ''h'', players = [(''p'', ''Ann'')],
           gameState = \<lparr>phase = Waiting, round_no = 1, prompts = [], imageUrl = [],
                        captions = [], votes = []\<rparr>,
           scores = [''p'' \<mapsto> Number 0]\<rparr>"
proof -
  let ?R = "run [CreateGame ''h'' ''0.4fzyo82mvyr'', JoinGame ''p'' ''4FZYO'' ''Ann'']"
  have g: "generateRoomCode ''0.9x2ab7'' = ''9X2AB''"
    by (simp add: generateRoomCode_def toUpperCase_def substring_def)
  have old: "?R ''4FZYO'' =
     Some \<lparr>host = ''h'', players = [(''p'', ''Ann'')],
           gameState = \<lparr>phase = Waiting, round_no = 1, prompts = [], imageUrl = [],
                        captions = [], votes = []\<rparr>,
           scores = [''p'' \<mapsto> Number 0]\<rparr>"
    by (simp add: handler_defs code_4FZYO)
  have free: "?R (generateRoomCode ''0.9x2ab7'') = None"
    by (simp add: g handler_defs code_4FZYO)
  from createGame_inserts [of ?R "''g''" "''0.9x2ab7''"] free old g show ?thesis by simp
qed

text \<open>C8. The claim: on a room code that is not in the registry, getGameState fails with
  a room-not-found result given to the caller, and on a code that is there it answers
  with the room's game state and players. Here the handler is run on the empty
  registry: it leaves the registry alone and sends nothing at all, so the caller's
  callback is never invoked.\<close>

theorem getGameState_absent_no_callback:
  "getGameState Map.empty ''s1'' ''ABCDE'' = (Map.empty, [])"
  by (simp add: getGameState_def lookupRoom_def objectPrototypeNames_def)

text \<open>C9. None of submitPrompt, submitCaption and submitVote looks at the phase. Whatever
  phase \<open>ph\<close> an existing room is in: the prompt or caption is added at the end of the
  room's prompts or captions, and the vote is what the room then holds for the voter, the
  votes of all other voters being as before; and the phase becomes the handler's target
  exactly when the prompts or captions with the new one, or the voters with this one, are
  as many as the room's players, and stays \<open>ph\<close> otherwise. (The votes are an object, so
  no voter has two entries in them.)\<close>

theorem submissions_ignore_phase:
  assumes "distinct (map fst (votes (gameState room)))"
  shows
    "promptsOf (fst (submitPrompt
        (rooms(roomCode \<mapsto> room\<lparr>gameState := (gameState room)\<lparr>phase := ph\<rparr>\<rparr>))
        sid roomCode prompt random)) roomCode =
       Some (prompts (gameState room) @ [(sid, prompt)]) \<and>
     phaseOf (fst (submitPrompt
        (rooms(roomCode \<mapsto> room\<lparr>gameState := (gameState room)\<lparr>phase := ph\<rparr>\<rparr>))
        sid roomCode prompt random)) roomCode =
       Some (if length (prompts (gameState room)) + 1 = length (players room)
             then CaptionSubmission else ph) \<and>
     captionsOf (fst (submitCaption
        (rooms(roomCode \<mapsto> room\<lparr>gameState := (gameState room)\<lparr>phase := ph\<rparr>\<rparr>))
        sid roomCode caption)) roomCode =
       Some (captions (gameState room) @ [(sid, caption)]) \<and>
     phaseOf (fst (submitCaption
        (rooms(roomCode \<mapsto> room\<lparr>gameState := (gameState room)\<lparr>phase := ph\<rparr>\<rparr>))
        sid roomCode caption)) roomCode =
       Some (if length (captions (gameState room)) + 1 = length (players room)
             then Voting else ph) \<and>
     (\<forall>voter. voteOf (fst (submitVote
        (rooms(roomCode \<mapsto> room\<lparr>gameState := (gameState room)\<lparr>phase := ph\<rparr>\<rparr>))
        sid roomCode votedCaptionId)) roomCode voter =
       (if voter = sid then Some votedCaptionId
        else map_of (votes (gameState room)) voter)) \<and>
     phaseOf (fst (submitVote
        (rooms(roomCode \<mapsto> room\<lparr>gameState := (gameState room)\<lparr>phase := ph\<rparr>\<rparr>))
        sid roomCode votedCaptionId)) roomCode =
       Some (if card (insert sid (fst ` set (votes (gameState room)))) = length (players room)
             then Result else ph)"
proof -
  let ?R = "rooms(roomCode \<mapsto> room\<lparr>gameState := (gameState room)\<lparr>phase := ph\<rparr>\<rparr>)"
  have own: "lookupRoom ?R roomCode = Own (room\<lparr>gameState := (gameState room)\<lparr>phase := ph\<rparr>\<rparr>)"
    by (simp add: lookupRoom_def)
  have voters: "length (obj_keys (obj_set sid votedCaptionId (votes (gameState room)))) =
                  card (insert sid (fst ` set (votes (gameState room))))"
    by (simp add: length_obj_keys length_obj_set [OF assms])
  have p: "promptsOf (fst (submitPrompt ?R sid roomCode prompt random)) roomCode =
             Some (prompts (gameState room) @ [(sid, prompt)])"
    "phaseOf (fst (submitPrompt ?R sid roomCode prompt random)) roomCode =
       Some (if length (prompts (gameState room)) + 1 = length (players room)
             then CaptionSubmission else ph)"
    by (simp_all add: promptsOf_def phaseOf_def submitPrompt_def own generateAIImage_def
        afterImage_def Let_def)
  have c: "captionsOf (fst (submitCaption ?R sid roomCode caption)) roomCode =
             Some (captions (gameState room) @ [(sid, caption)])"
    "phaseOf (fst (submitCaption ?R sid roomCode caption)) roomCode =
       Some (if length (captions (gameState room)) + 1 = length (players room)
             then Voting else ph)"
    by (simp_all add: captionsOf_def phaseOf_def submitCaption_def own Let_def)
  have v: "voteOf (fst (submitVote ?R sid roomCode votedCaptionId)) roomCode voter =
             (if voter = sid then Some votedCaptionId
              else map_of (votes (gameState room)) voter)" for voter
    by (simp add: voteOf_def submitVote_def own Let_def map_of_obj_set)
  have g: "phaseOf (fst (submitVote ?R sid roomCode votedCaptionId)) roomCode =
       Some (if card (insert sid (fst ` set (votes (gameState room)))) = length (players room)
             then Result else ph)"
    by (simp add: phaseOf_def submitVote_def own Let_def voters)
  from p c v g show ?thesis by simp
qed

text \<open>The example of the claim, and the same for a prompt and a vote: in a room with one
  player that is still waiting, the player's caption moves the room to voting, its prompt
  to captionSubmission and its vote to result. In a waiting room with two players the
  first vote is kept and the room stays waiting; the second vote of the same voter
  replaces the first and the room still waits.\<close>

theorem submissions_ignore_phase_witness:
  "captionsOf (fst (submitCaption
       [''4FZYO'' \<mapsto> \<lparr>host = ''h'', players = [(''p'', ''Ann'')],
          gameState = \<lparr>phase = Waiting, round_no = 1, prompts = [], imageUrl = [],
                       captions = [], votes = []\<rparr>,
          scores = [''p'' \<mapsto> Number 0]\<rparr>]
       ''p'' ''4FZYO'' ''funny'')) ''4FZYO'' = Some [(''p'', ''funny'')] \<and>
   phaseOf (fst (submitCaption
       [''4FZYO'' \<mapsto> \<lparr>host = ''h'', players = [(''p'', ''Ann'')],
          gameState = \<lparr>phase = Waiting, round_no = 1, prompts = [], imageUrl = [],
                       captions = [], votes = []\<rparr>,
          scores = [''p'' \<mapsto> Number 0]\<rparr>]
       ''p'' ''4FZYO'' ''funny'')) ''4FZYO'' = Some Voting \<and>
   phaseOf (fst (submitPrompt
       [''4FZYO'' \<mapsto> \<lparr>host = ''h'', players = [(''p'', ''Ann'')],
          gameState = \<lparr>phase = Waiting, round_no = 1, prompts = [], imageUrl = [],
                       captions = [], votes = []\<rparr>,
          scores = [''p'' \<mapsto> Number 0]\<rparr>]
       ''p'' ''4FZYO'' ''a cat'' 0)) ''4FZYO'' = Some CaptionSubmission \<and>
   voteOf (fst (submitVote
       [''4FZYO'' \<mapsto> \<lparr>host = ''h'', players = [(''p'', ''Ann'')],
          gameState = \<lparr>phase = Waiting, round_no = 1, prompts = [], imageUrl = [],
                       captions = [], votes = []\<rparr>,
          scores = [''p'' \<mapsto> Number 0]\<rparr>]
       ''p'' ''4FZYO'' ''p'')) ''4FZYO'' ''p'' = Some ''p'' \<and>
   phaseOf (fst (submitVote
       [''4FZYO'' \<mapsto> \<lparr>host = ''h'', players = [(''p'', ''Ann'')],
          gameState = \<lparr>phase = Waiting, round_no = 1, prompts = [], imageUrl = [],
                       captions = [], votes = []\<rparr>,
          scores = [''p'' \<mapsto> Number 0]\<rparr>]
       ''p'' ''4FZYO'' ''p'')) ''4FZYO'' = Some Result \<and>
   voteOf (fst (submitVote
       [''4FZYO'' \<mapsto> \<lparr>host = ''h'', players = [(''a'', ''Ann''), (''b'', ''Bob'')],
          gameState = \<lparr>phase = Waiting, round_no = 1, prompts = [], imageUrl = [],
                       captions = [], votes = [(''a'', ''b'')]\<rparr>,
          scores = [''a'' \<mapsto> Number 0, ''b'' \<mapsto> Number 0]\<rparr>]
       ''a'' ''4FZYO'' ''a'')) ''4FZYO'' ''a'' = Some ''a'' \<and>
   phaseOf (fst (submitVote
       [''4FZYO'' \<mapsto> \<lparr>host = ''h'', players = [(''a'', ''Ann''), (''b'', ''Bob'')],
          gameState = \<lparr>phase = Waiting, round_no = 1, prompts = [], imageUrl = [],
                       captions = [], votes = [(''a'', ''b'')]\<rparr>,
          scores = [''a'' \<mapsto> Number 0, ''b'' \<mapsto> Number 0]\<rparr>]
       ''a'' ''4FZYO'' ''a'')) ''4FZYO'' = Some Waiting"
proof -
  let ?one = "\<lparr>host = ''h'', players = [(''p'', ''Ann'')],
          gameState = \<lparr>phase = Waiting, round_no = 1, prompts = [], imageUrl = [],
                       captions = [], votes = []\<rparr>,
          scores = [''p'' \<mapsto> Number 0]\<rparr>"
  let ?two = "\<lparr>host = ''h'', players = [(''a'', ''Ann''), (''b'', ''Bob'')],
          gameState = \<lparr>phase = Waiting, round_no = 1, prompts = [], imageUrl = [],
                       captions = [], votes = [(''a'', ''b'')]\<rparr>,
          scores = [''a'' \<mapsto> Number 0, ''b'' \<mapsto> Number 0]\<rparr>"
  have d1: "distinct (map fst (votes (gameState ?one)))" by simp
  have d2: "distinct (map fst (votes (gameState ?two)))" by simp
  from submissions_ignore_phase [OF d1, where rooms = Map.empty and roomCode = "''4FZYO''"
      and ph = Waiting and sid = "''p''" and prompt = "''a cat''" and random = 0
      and caption = "''funny''" and votedCaptionId = "''p''"]
    submissions_ignore_phase [OF d2, where rooms = Map.empty and roomCode = "''4FZYO''"
      and ph = Waiting and sid = "''a''" and votedCaptionId = "''a''"]
  show ?thesis by simp
qed

text \<open>C10. The claim: a disconnect deletes every room that has no players once the
  connection is removed, and leaves the rooms that stay untouched unless the connection
  was a player or the host. The handler also deletes the connection's entry from the
  scores of every room; a connection that is neither player nor host can have one (here
  the only player voted for it, which stored \<^verbatim>\<open>NaN\<close> under its id), and then the room's
  scores change.\<close>

theorem disconnect_removes_stray_score:
  "run [CreateGame ''h'' ''0.4fzyo82mvyr'', JoinGame ''p'' ''4FZYO'' ''Ann'',
        SubmitVote ''p'' ''4FZYO'' ''c''] ''4FZYO'' =
     Some \<lparr>host = ''h'', players = [(''p'', ''Ann'')],
           gameState = \<lparr>phase = Result, round_no = 1, prompts = [], imageUrl = [],
                        captions = [], votes = [(''p'', ''c'')]\<rparr>,
           scores = [''p'' \<mapsto> Number 0, ''c'' \<mapsto> NaN]\<rparr> \<and>
   run [CreateGame ''h'' ''0.4fzyo82mvyr'', JoinGame ''p'' ''4FZYO'' ''Ann'',
        SubmitVote ''p'' ''4FZYO'' ''c'', Disconnect ''c''] ''4FZYO'' =
     Some \<lparr>host = ''h'', players = [(''p'', ''Ann'')],
           gameState = \<lparr>phase = Result, round_no = 1, prompts = [], imageUrl = [],
                        captions = [], votes = [(''p'', ''c'')]\<rparr>,
           scores = [''p'' \<mapsto> Number 0]\<rparr> \<and>
   [''p'' \<mapsto> Number 0, ''c'' \<mapsto> NaN] \<noteq> [''p'' \<mapsto> Number 0]"
proof -
  have "[''p'' \<mapsto> Number 0, ''c'' \<mapsto> NaN] ''c'' \<noteq> [''p'' \<mapsto> Number 0] ''c''" by simp
  then have "[''p'' \<mapsto> Number 0, ''c'' \<mapsto> NaN] \<noteq> [''p'' \<mapsto> Number 0]" by metis
  then show ?thesis by (simp add: handler_defs tally_defs code_4FZYO)
qed

text \<open>C10, amended. Handling a disconnect of \<open>sid\<close> deletes a room exactly when no player
  with another id is left in it, which includes a room that never had a player; it creates
  no room. A room that stays keeps its game state. If \<open>sid\<close> is neither a player nor the
  host of a room that has players, the room stays and only the entry of \<open>sid\<close> in its
  scores is removed; so the room is unchanged if there is no such entry.\<close>

theorem disconnect_frame:
  "(rooms roomCode = None \<longrightarrow> fst (disconnect rooms sid) roomCode = None) \<and>
   (\<forall>room. rooms roomCode = Some room \<longrightarrow>
      (fst (disconnect rooms sid) roomCode = None \<longleftrightarrow>
         filter (\<lambda>player. fst player \<noteq> sid) (players room) = []) \<and>
      (\<forall>room'. fst (disconnect rooms sid) roomCode = Some room' \<longrightarrow>
         gameState room' = gameState room) \<and>
      (sid \<notin> playerIds room \<and> players room \<noteq> [] \<and> host room \<noteq> sid \<longrightarrow>
         fst (disconnect rooms sid) roomCode = Some (room\<lparr>scores := (scores room)(sid := None)\<rparr>)) \<and>
      (sid \<notin> playerIds room \<and> players room \<noteq> [] \<and> host room \<noteq> sid \<and> scores room sid = None \<longrightarrow>
         fst (disconnect rooms sid) roomCode = Some room))"
proof (intro conjI allI impI)
  assume "rooms roomCode = None"
  then show "fst (disconnect rooms sid) roomCode = None" by (simp add: disconnect_def)
next
  fix room assume r: "rooms roomCode = Some room"
  then show "fst (disconnect rooms sid) roomCode = None \<longleftrightarrow>
         filter (\<lambda>player. fst player \<noteq> sid) (players room) = []"
    by (simp add: disconnect_def disconnectRoom_def Let_def)
next
  fix room room'
  assume "rooms roomCode = Some room" "fst (disconnect rooms sid) roomCode = Some room'"
  then show "gameState room' = gameState room"
    by (auto simp: disconnect_def disconnectRoom_def Let_def split: if_splits)
next
  fix room
  assume r: "rooms roomCode = Some room"
    and a: "sid \<notin> playerIds room \<and> players room \<noteq> [] \<and> host room \<noteq> sid"
  then have f: "filter (\<lambda>player. fst player \<noteq> sid) (players room) = players room"
    by (simp add: playerIds_def filter_other_ids)
  with r a show "fst (disconnect rooms sid) roomCode =
      Some (room\<lparr>scores := (scores room)(sid := None)\<rparr>)"
    by (simp add: disconnect_def disconnectRoom_def Let_def)
next
  fix room
  assume r: "rooms roomCode = Some room"
    and a: "sid \<notin> playerIds room \<and> players room \<noteq> [] \<and> host room \<noteq> sid \<and> scores room sid = None"
  then have f: "filter (\<lambda>player. fst player \<noteq> sid) (players room) = players room"
    by (simp add: playerIds_def filter_other_ids)
  from a have "(scores room)(sid := None) = scores room" by (simp add: fun_upd_idem)
  with f r a show "fst (disconnect rooms sid) roomCode = Some room"
    by (simp add: disconnect_def disconnectRoom_def Let_def)
qed

text \<open>A room just created is deleted when some other connection leaves; a room with a
  player is left as it is.\<close>

theorem disconnect_frame_witness:
  "fst (disconnect (run [CreateGame ''h'' ''0.4fzyo82mvyr'']) ''x'') ''4FZYO'' = None \<and>
   fst (disconnect (run [CreateGame ''h'' ''0.4fzyo82mvyr'', JoinGame ''p'' ''4FZYO'' ''Ann''])
          ''x'') ''4FZYO'' =
     Some \<lparr>host = ''h'', players = [(''p'', ''Ann'')],
           gameState = \<lparr>phase = Waiting, round_no = 1, prompts = [], imageUrl = [],
                        captions = [], votes = []\<rparr>,
           scores = [''p'' \<mapsto> Number 0]\<rparr>"
proof -
  let ?room = "\<lparr>host = ''h'', players = [(''p'', ''Ann'')],
           gameState = \<lparr>phase = Waiting, round_no = 1, prompts = [], imageUrl = [],
                        captions = [], votes = []\<rparr>,
           scores = [''p'' \<mapsto> Number 0]\<rparr>"
  have fresh: "run [CreateGame ''h'' ''0.4fzyo82mvyr''] ''4FZYO'' = Some (newRoom ''h'')"
    by (simp add: run_def createGame_def Let_def code_4FZYO)
  have joined: "run [CreateGame ''h'' ''0.4fzyo82mvyr'', JoinGame ''p'' ''4FZYO'' ''Ann''] ''4FZYO'' =
      Some ?room"
    by (simp add: handler_defs code_4FZYO)
  from disconnect_frame [of "run [CreateGame ''h'' ''0.4fzyo82mvyr'']" "''4FZYO''" "''x''"] fresh
  have 1: "fst (disconnect (run [CreateGame ''h'' ''0.4fzyo82mvyr'']) ''x'') ''4FZYO'' = None"
    by (simp add: newRoom_def)
  have "''x'' \<notin> playerIds ?room \<and> players ?room \<noteq> [] \<and> host ?room \<noteq> ''x'' \<and>
        scores ?room ''x'' = None"
    by (simp add: playerIds_def)
  with disconnect_frame [of "run [CreateGame ''h'' ''0.4fzyo82mvyr'', JoinGame ''p'' ''4FZYO'' ''Ann'']"
         "''4FZYO''" "''x''"] joined
  have 2: "fst (disconnect (run [CreateGame ''h'' ''0.4fzyo82mvyr'', JoinGame ''p'' ''4FZYO'' ''Ann''])
          ''x'') ''4FZYO'' = Some ?room"
    by blast
  from 1 2 show ?thesis by simp
qed

end
